theory Spec2Isabelle
  imports Main
begin

section \<open>Data model\<close>

text \<open>
  Identifiers (\<open>_id\<close>, the \<open>id\<close> parameters) are strings. The scalar fields of a book are
  carried around and never computed with; \<open>price\<close> is kept as an integer for that reason.
\<close>

type_synonym ident = string

record scalars =
  title :: string
  description :: string
  price :: int
  numberOfPages :: int

text \<open>A stored book document: \<open>book_id\<close> is \<open>_id\<close>, \<open>authors\<close> the array of author ids.\<close>

record IBookDocument = scalars +
  book_id :: ident
  authors :: "ident list"

text \<open>
  A stored author document: \<open>author_id\<close> is \<open>_id\<close>; \<open>books\<close> is an array, which
  \<open>$push\<close> appends to and \<open>$pull\<close> removes every occurrence from.
\<close>

record IAuthorDocument =
  author_id :: ident
  name :: string
  books :: "ident list"

text \<open>\<open>ICreateBook\<close>: the payload of create and replace; \<open>authors\<close> may be absent.\<close>

record ICreateBook = scalars +
  create_authors :: "ident list option"

text \<open>\<open>IUpdateBook\<close>: the partial payload of update; every field may be absent.\<close>

record IUpdateBook =
  update_title :: "string option"
  update_description :: "string option"
  update_price :: "int option"
  update_numberOfPages :: "int option"
  update_authors :: "ident list option"

record IBookAuthorObject =
  ba_id :: ident
  ba_name :: "string option"

record IReadBook = scalars +
  read_id :: ident
  read_authors :: "IBookAuthorObject list"

text \<open>The two collections, each a list of documents in storage order.\<close>

record db =
  BookModel :: "IBookDocument list"
  AuthorModel :: "IAuthorDocument list"

section \<open>Errors (errors.ts)\<close>

text \<open>
  \<open>DataValidatorError\<close> carries the mapping from field path to message,
  \<open>ResourceNotFoundError\<close> the resource name and the optional id. \<open>StorageError\<close>
  stands for any error raised by the storage layer itself.
\<close>

datatype exn =
    RepositoryError string
  | DataValidatorError "(string \<times> string) list"
  | ResourceNotFoundError string "ident option"
  | StorageError string

section \<open>Storage: sessions, transactions and their writes\<close>

datatype ClientSession = ClientSession

text \<open>
  The start of the transaction and the awaited storage calls of the repository; each one
  may fail.
\<close>

datatype step =
    BeginTransaction
  | FindAuthors | FindBook | SaveBook | ReplaceBook | UpdateBook | DeleteBook
  | PushAuthors | PullAuthors | Commit | Abort

datatype event =
    StartSession | StartTransaction | CommitTransaction | AbortTransaction | EndSession
  | Call step "ClientSession option"

datatype mutation =
    Save IBookDocument
  | FindOneAndReplace ident IBookDocument
  | FindByIdAndUpdate ident IUpdateBook
  | FindByIdAndDelete ident
  | UpdateManyPush "ident list" ident
  | UpdateManyPull "ident list" ident

definition patch :: "IUpdateBook \<Rightarrow> IBookDocument \<Rightarrow> IBookDocument" where
  "patch data d =
     d\<lparr>title := (case update_title data of None \<Rightarrow> title d | Some v \<Rightarrow> v),
       description := (case update_description data of None \<Rightarrow> description d | Some v \<Rightarrow> v),
       price := (case update_price data of None \<Rightarrow> price d | Some v \<Rightarrow> v),
       numberOfPages := (case update_numberOfPages data of None \<Rightarrow> numberOfPages d | Some v \<Rightarrow> v),
       authors := (case update_authors data of None \<Rightarrow> authors d | Some v \<Rightarrow> v)\<rparr>"

fun apply_write :: "mutation \<Rightarrow> db \<Rightarrow> db" where
  "apply_write (Save d) s = s\<lparr>BookModel := BookModel s @ [d]\<rparr>"
| "apply_write (FindOneAndReplace i d) s =
     (if i \<in> set (map book_id (BookModel s))
      then s\<lparr>BookModel := map (\<lambda>x. if book_id x = i then d else x) (BookModel s)\<rparr>
      else s\<lparr>BookModel := BookModel s @ [d]\<rparr>)"
| "apply_write (FindByIdAndUpdate i data) s =
     s\<lparr>BookModel := map (\<lambda>x. if book_id x = i then patch data x else x) (BookModel s)\<rparr>"
| "apply_write (FindByIdAndDelete i) s =
     s\<lparr>BookModel := filter (\<lambda>x. book_id x \<noteq> i) (BookModel s)\<rparr>"
| "apply_write (UpdateManyPush ids b) s =
     s\<lparr>AuthorModel :=
         map (\<lambda>a. if author_id a \<in> set ids then a\<lparr>books := books a @ [b]\<rparr> else a) (AuthorModel s)\<rparr>"
| "apply_write (UpdateManyPull ids b) s =
     s\<lparr>AuthorModel :=
         map (\<lambda>a. if author_id a \<in> set ids then a\<lparr>books := removeAll b (books a)\<rparr> else a)
           (AuthorModel s)\<rparr>"

text \<open>
  The world an operation runs in: the committed database, the writes of the transaction in
  progress (applied at commit, dropped at abort), and the trace of what was called.
\<close>

record world =
  committed :: db
  pending :: "mutation list"
  trace :: "event list"

text \<open>What a read inside the transaction sees: the committed data and the transaction's own writes.\<close>

definition view :: "world \<Rightarrow> db" where
  "view w = foldl (\<lambda>s x. apply_write x s) (committed w) (pending w)"

text \<open>What a call sees: the transaction's view with a session, the committed data without.\<close>

definition visible :: "ClientSession option \<Rightarrow> world \<Rightarrow> db" where
  "visible session w = (case session of None \<Rightarrow> committed w | Some _ \<Rightarrow> view w)"

section \<open>Computations that may throw\<close>

type_synonym 'a io = "world \<Rightarrow> (exn + 'a) \<times> world"

definition ret :: "'a \<Rightarrow> 'a io" where
  "ret x = (\<lambda>w. (Inr x, w))"

definition throw :: "exn \<Rightarrow> 'a io" where
  "throw e = (\<lambda>w. (Inl e, w))"

definition bind :: "'a io \<Rightarrow> ('a \<Rightarrow> 'b io) \<Rightarrow> 'b io" where
  "bind m f = (\<lambda>w. case m w of (Inl e, w') \<Rightarrow> (Inl e, w') | (Inr x, w') \<Rightarrow> f x w')"

definition try_catch :: "'a io \<Rightarrow> (exn \<Rightarrow> 'a io) \<Rightarrow> 'a io" where
  "try_catch m h = (\<lambda>w. case m w of (Inl e, w') \<Rightarrow> h e w' | (Inr x, w') \<Rightarrow> (Inr x, w'))"

text \<open>\<open>finally\<close>: the block runs on every exit; when it throws, its error replaces the outcome.\<close>

definition try_finally :: "'a io \<Rightarrow> unit io \<Rightarrow> 'a io" where
  "try_finally m fin =
     (\<lambda>w. case m w of (r, w') \<Rightarrow>
        (case fin w' of (Inl e, w'') \<Rightarrow> (Inl e, w'') | (Inr _, w'') \<Rightarrow> (r, w'')))"

text \<open>
  A storage call is recorded with the session it was given, then fails when the fault
  assignment \<open>flt\<close> says so.
\<close>

definition call :: "(step \<Rightarrow> exn option) \<Rightarrow> step \<Rightarrow> ClientSession option \<Rightarrow> unit io" where
  "call flt st session =
     (\<lambda>w. let w' = w\<lparr>trace := trace w @ [Call st session]\<rparr>
          in case flt st of Some e \<Rightarrow> (Inl e, w') | None \<Rightarrow> (Inr (), w'))"

definition read_db :: "ClientSession option \<Rightarrow> db io" where
  "read_db session = (\<lambda>w. (Inr (visible session w), w))"

text \<open>A write with a session joins the transaction; a write without one is applied at once.\<close>

definition write_db :: "ClientSession option \<Rightarrow> mutation \<Rightarrow> unit io" where
  "write_db session x =
     (\<lambda>w. case session of
            Some _ \<Rightarrow> (Inr (), w\<lparr>pending := pending w @ [x]\<rparr>)
          | None \<Rightarrow> (Inr (), w\<lparr>committed := apply_write x (committed w)\<rparr>))"

definition startSession :: "ClientSession io" where
  "startSession = (\<lambda>w. (Inr ClientSession, w\<lparr>trace := trace w @ [StartSession]\<rparr>))"

text \<open>\<open>session.startTransaction()\<close> throws when the transaction cannot be started.\<close>

definition startTransaction :: "(step \<Rightarrow> exn option) \<Rightarrow> ClientSession \<Rightarrow> unit io" where
  "startTransaction flt session =
     (\<lambda>w. case flt BeginTransaction of
            Some e \<Rightarrow> (Inl e, w)
          | None \<Rightarrow> (Inr (), w\<lparr>pending := [], trace := trace w @ [StartTransaction]\<rparr>))"

definition commitTransaction :: "(step \<Rightarrow> exn option) \<Rightarrow> ClientSession \<Rightarrow> unit io" where
  "commitTransaction flt session =
     (\<lambda>w. case flt Commit of
            Some e \<Rightarrow> (Inl e, w)
          | None \<Rightarrow> (Inr (), w\<lparr>committed := view w, pending := [],
                               trace := trace w @ [CommitTransaction]\<rparr>))"

definition abortTransaction :: "(step \<Rightarrow> exn option) \<Rightarrow> ClientSession \<Rightarrow> unit io" where
  "abortTransaction flt session =
     (\<lambda>w. case flt Abort of
            Some e \<Rightarrow> (Inl e, w)
          | None \<Rightarrow> (Inr (), w\<lparr>pending := [], trace := trace w @ [AbortTransaction]\<rparr>))"

text \<open>Ending the session drops whatever transaction is still open.\<close>

definition endSession :: "ClientSession \<Rightarrow> unit io" where
  "endSession session = (\<lambda>w. (Inr (), w\<lparr>pending := [], trace := trace w @ [EndSession]\<rparr>))"

section \<open>The model calls used by the repository\<close>

text \<open>\<open>AuthorModel.find({ _id: { $in: ids } }, { name: 1 }, { session })\<close>\<close>

definition AuthorModel_find ::
  "(step \<Rightarrow> exn option) \<Rightarrow> ident list \<Rightarrow> ClientSession option \<Rightarrow> IAuthorDocument list io" where
  "AuthorModel_find flt ids session =
     bind (call flt FindAuthors session) (\<lambda>_.
     bind (read_db session) (\<lambda>s.
     ret (filter (\<lambda>a. author_id a \<in> set ids) (AuthorModel s))))"

text \<open>\<open>AuthorModel.updateMany({ _id: { $in: ids } }, { $push: { books: bookId } }, { session })\<close>\<close>

definition AuthorModel_updateMany_push ::
  "(step \<Rightarrow> exn option) \<Rightarrow> ident list \<Rightarrow> ident \<Rightarrow> ClientSession option \<Rightarrow> unit io" where
  "AuthorModel_updateMany_push flt ids bookId session =
     bind (call flt PushAuthors session) (\<lambda>_. write_db session (UpdateManyPush ids bookId))"

text \<open>\<open>AuthorModel.updateMany({ _id: { $in: ids } }, { $pull: { books: bookId } }, { session })\<close>\<close>

definition AuthorModel_updateMany_pull ::
  "(step \<Rightarrow> exn option) \<Rightarrow> ident list \<Rightarrow> ident \<Rightarrow> ClientSession option \<Rightarrow> unit io" where
  "AuthorModel_updateMany_pull flt ids bookId session =
     bind (call flt PullAuthors session) (\<lambda>_. write_db session (UpdateManyPull ids bookId))"

text \<open>\<open>BookModel.findById(id, { _id: 0, authors: 1 }, { session })\<close>\<close>

definition BookModel_findById ::
  "(step \<Rightarrow> exn option) \<Rightarrow> ident \<Rightarrow> ClientSession option \<Rightarrow> IBookDocument option io" where
  "BookModel_findById flt i session =
     bind (call flt FindBook session) (\<lambda>_.
     bind (read_db session) (\<lambda>s.
     ret (find (\<lambda>d. book_id d = i) (BookModel s))))"

text \<open>
  \<open>new BookModel(data)\<close>: the document gets the fresh id \<open>newId\<close>, and an absent
  \<open>authors\<close> becomes the empty array.
\<close>

definition new_BookModel :: "ident \<Rightarrow> ICreateBook \<Rightarrow> IBookDocument" where
  "new_BookModel newId data =
     \<lparr>title = title data, description = description data, price = price data,
      numberOfPages = numberOfPages data, book_id = newId,
      authors = (case create_authors data of None \<Rightarrow> [] | Some ids \<Rightarrow> ids)\<rparr>"

text \<open>\<open>document.save({ session })\<close>; an id already in use is a duplicate key.\<close>

definition save :: "(step \<Rightarrow> exn option) \<Rightarrow> IBookDocument \<Rightarrow> ClientSession option \<Rightarrow> unit io" where
  "save flt document session =
     bind (call flt SaveBook session) (\<lambda>_.
     bind (read_db session) (\<lambda>s.
     if book_id document \<in> set (map book_id (BookModel s))
     then throw (StorageError ''E11000 duplicate key'')
     else write_db session (Save document)))"

text \<open>\<open>BookModel.findOneAndReplace({ _id: id }, data, { new: true, upsert: true, ..., session })\<close>\<close>

definition BookModel_findOneAndReplace ::
  "(step \<Rightarrow> exn option) \<Rightarrow> ident \<Rightarrow> ICreateBook \<Rightarrow> ClientSession option \<Rightarrow> IBookDocument io" where
  "BookModel_findOneAndReplace flt i data session =
     bind (call flt ReplaceBook session) (\<lambda>_.
     bind (write_db session (FindOneAndReplace i (new_BookModel i data))) (\<lambda>_.
     ret (new_BookModel i data)))"

text \<open>
  \<open>BookModel.findByIdAndUpdate(id, data, { upsert: false, ..., returnDocument: 'after', session })\<close>:
  \<open>null\<close> when no book has the id.
\<close>

definition BookModel_findByIdAndUpdate ::
  "(step \<Rightarrow> exn option) \<Rightarrow> ident \<Rightarrow> IUpdateBook \<Rightarrow> ClientSession option
     \<Rightarrow> IBookDocument option io" where
  "BookModel_findByIdAndUpdate flt i data session =
     bind (call flt UpdateBook session) (\<lambda>_.
     bind (read_db session) (\<lambda>s.
     case find (\<lambda>d. book_id d = i) (BookModel s) of
       None \<Rightarrow> ret None
     | Some d \<Rightarrow> bind (write_db session (FindByIdAndUpdate i data)) (\<lambda>_. ret (Some (patch data d)))))"

text \<open>\<open>BookModel.findByIdAndDelete(id, { session })\<close>: the deleted document, or \<open>null\<close>.\<close>

definition BookModel_findByIdAndDelete ::
  "(step \<Rightarrow> exn option) \<Rightarrow> ident \<Rightarrow> ClientSession option \<Rightarrow> IBookDocument option io" where
  "BookModel_findByIdAndDelete flt i session =
     bind (call flt DeleteBook session) (\<lambda>_.
     bind (read_db session) (\<lambda>s.
     case find (\<lambda>d. book_id d = i) (BookModel s) of
       None \<Rightarrow> ret None
     | Some d \<Rightarrow> bind (write_db session (FindByIdAndDelete i)) (\<lambda>_. ret (Some d))))"

section \<open>BookRepository (book.ts)\<close>

definition findBookAuthors ::
  "(step \<Rightarrow> exn option) \<Rightarrow> ident list option \<Rightarrow> ClientSession option
     \<Rightarrow> IBookAuthorObject list io" where
  "findBookAuthors flt authorsIds session =
     (case authorsIds of
        None \<Rightarrow> ret []
      | Some ids \<Rightarrow>
          bind (AuthorModel_find flt ids session) (\<lambda>documents.
          ret (map (\<lambda>document. \<lparr>ba_id = author_id document, ba_name = Some (name document)\<rparr>)
                 documents)))"

text \<open>Only an absent list takes the early return: an empty array is not falsy.\<close>

definition validateBookAuthors ::
  "(step \<Rightarrow> exn option) \<Rightarrow> ident list option \<Rightarrow> ClientSession option
     \<Rightarrow> IBookAuthorObject list io" where
  "validateBookAuthors flt authorsIds session =
     (case authorsIds of
        None \<Rightarrow> ret []
      | Some ids \<Rightarrow>
          (let authorsIdsSet = set ids;
               hasDuplicates = (length ids \<noteq> card authorsIdsSet)
           in bind (findBookAuthors flt (Some ids) session) (\<lambda>foundBookAuthors.
              let foundBookAuthorsIds = map ba_id foundBookAuthors
              in if hasDuplicates \<or> length ids \<noteq> length foundBookAuthorsIds
                 then throw (DataValidatorError [(''author'', ''Authors list contains invalid ids'')])
                 else ret foundBookAuthors)))"

text \<open>\<open>!bookId\<close> holds for an absent id and for the empty string.\<close>

definition addBookToAuthors ::
  "(step \<Rightarrow> exn option) \<Rightarrow> ident option \<Rightarrow> ident list option \<Rightarrow> ClientSession option
     \<Rightarrow> unit io" where
  "addBookToAuthors flt bookId newAuthorsIds session =
     (case (bookId, newAuthorsIds) of
        (Some b, Some ids) \<Rightarrow>
          if b = [] then ret () else AuthorModel_updateMany_push flt ids b session
      | _ \<Rightarrow> ret ())"

definition removeBookFromAuthors ::
  "(step \<Rightarrow> exn option) \<Rightarrow> ident \<Rightarrow> ident list option \<Rightarrow> ClientSession option \<Rightarrow> unit io" where
  "removeBookFromAuthors flt bookId oldAuthorsIds session =
     (case oldAuthorsIds of
        None \<Rightarrow> ret ()
      | Some ids \<Rightarrow> AuthorModel_updateMany_pull flt ids bookId session)"

definition updateBookAuthors ::
  "(step \<Rightarrow> exn option) \<Rightarrow> ident \<Rightarrow> ident list option \<Rightarrow> ident list option
     \<Rightarrow> ClientSession option \<Rightarrow> unit io" where
  "updateBookAuthors flt bookId newAuthorsIds oldAuthorsIds session =
     bind (removeBookFromAuthors flt bookId oldAuthorsIds session) (\<lambda>_.
     addBookToAuthors flt (Some bookId) newAuthorsIds session)"

text \<open>
  \<open>cachedAuthors || authorsDocuments.map(...)\<close>: a supplied list is used even when it is
  empty (an empty array is truthy). Otherwise the document's authors are read as author
  documents: \<open>populatedAuthors\<close> when the caller populated them, the bare references
  (an id, no name) when it did not.
\<close>

definition documentToBook ::
  "IBookDocument \<Rightarrow> IAuthorDocument list option \<Rightarrow> IBookAuthorObject list option \<Rightarrow> IReadBook" where
  "documentToBook document populatedAuthors cachedAuthors =
     \<lparr>title = title document, description = description document, price = price document,
      numberOfPages = numberOfPages document, read_id = book_id document,
      read_authors =
        (case cachedAuthors of
           Some c \<Rightarrow> c
         | None \<Rightarrow>
             (case populatedAuthors of
                Some ds \<Rightarrow> map (\<lambda>author. \<lparr>ba_id = author_id author, ba_name = Some (name author)\<rparr>) ds
              | None \<Rightarrow> map (\<lambda>r. \<lparr>ba_id = r, ba_name = None\<rparr>) (authors document)))\<rparr>"

text \<open>
  The \<open>catch\<close> block shared by the four mutating operations: abort, then throw the
  adapted error. \<open>adaptError\<close> is the injected \<open>IDatabaseErrorAdapter\<close>. In each
  operation the session is opened and the transaction started before the \<open>try\<close>
  block, so an error of either leaves the operation at once, past \<open>catch\<close> and
  \<open>finally\<close>.
\<close>

definition on_error :: "(exn \<Rightarrow> exn) \<Rightarrow> (step \<Rightarrow> exn option) \<Rightarrow> ClientSession \<Rightarrow> exn \<Rightarrow> 'a io" where
  "on_error adaptError flt session error =
     bind (abortTransaction flt session) (\<lambda>_. throw (adaptError error))"

definition create ::
  "(exn \<Rightarrow> exn) \<Rightarrow> (step \<Rightarrow> exn option) \<Rightarrow> ident \<Rightarrow> ICreateBook \<Rightarrow> IReadBook io" where
  "create adaptError flt newId data =
     bind startSession (\<lambda>session.
     bind (startTransaction flt session) (\<lambda>_.
     try_finally
       (try_catch
          (bind (validateBookAuthors flt (create_authors data) (Some session)) (\<lambda>bookAuthors.
           let document = new_BookModel newId data in
           bind (save flt document (Some session)) (\<lambda>_.
           bind (addBookToAuthors flt (Some (book_id document)) (Some (authors document))
                   (Some session)) (\<lambda>_.
           bind (commitTransaction flt session) (\<lambda>_.
           ret (documentToBook document None (Some bookAuthors)))))))
          (on_error adaptError flt session))
       (endSession session)))"

text \<open>In \<open>replace\<close> the call of \<open>updateBookAuthors\<close> is given no session.\<close>

definition replace ::
  "(exn \<Rightarrow> exn) \<Rightarrow> (step \<Rightarrow> exn option) \<Rightarrow> ident \<Rightarrow> ICreateBook \<Rightarrow> IReadBook io" where
  "replace adaptError flt i data =
     bind startSession (\<lambda>session.
     bind (startTransaction flt session) (\<lambda>_.
     try_finally
       (try_catch
          (bind (validateBookAuthors flt (create_authors data) (Some session)) (\<lambda>bookAuthors.
           bind (BookModel_findById flt i (Some session)) (\<lambda>oldDocument.
           bind (BookModel_findOneAndReplace flt i data (Some session)) (\<lambda>updatedDocument.
           bind (updateBookAuthors flt i (Some (authors updatedDocument))
                   (map_option authors oldDocument) None) (\<lambda>_.
           bind (commitTransaction flt session) (\<lambda>_.
           ret (documentToBook updatedDocument None (Some bookAuthors))))))))
          (on_error adaptError flt session))
       (endSession session)))"

definition update ::
  "(exn \<Rightarrow> exn) \<Rightarrow> (step \<Rightarrow> exn option) \<Rightarrow> ident \<Rightarrow> IUpdateBook \<Rightarrow> IReadBook io" where
  "update adaptError flt i data =
     bind startSession (\<lambda>session.
     bind (startTransaction flt session) (\<lambda>_.
     try_finally
       (try_catch
          (bind (BookModel_findById flt i (Some session)) (\<lambda>oldDocument.
           case oldDocument of
             None \<Rightarrow> throw (ResourceNotFoundError ''Book'' (Some i))
           | Some old \<Rightarrow>
               bind (validateBookAuthors flt (update_authors data) (Some session)) (\<lambda>bookAuthors.
               bind (BookModel_findByIdAndUpdate flt i data (Some session)) (\<lambda>updatedDocument.
               case updatedDocument of
                 None \<Rightarrow> throw (ResourceNotFoundError ''Book'' (Some i))
               | Some updated \<Rightarrow>
                   bind (updateBookAuthors flt i (Some (authors updated)) (Some (authors old))
                           (Some session)) (\<lambda>_.
                   bind (commitTransaction flt session) (\<lambda>_.
                   ret (documentToBook updated None (Some bookAuthors))))))))
          (on_error adaptError flt session))
       (endSession session)))"

definition delete ::
  "(exn \<Rightarrow> exn) \<Rightarrow> (step \<Rightarrow> exn option) \<Rightarrow> ident \<Rightarrow> unit io" where
  "delete adaptError flt i =
     bind startSession (\<lambda>session.
     bind (startTransaction flt session) (\<lambda>_.
     try_finally
       (try_catch
          (bind (BookModel_findByIdAndDelete flt i (Some session)) (\<lambda>oldDocument.
           case oldDocument of
             None \<Rightarrow> throw (ResourceNotFoundError ''Book'' (Some i))
           | Some old \<Rightarrow>
               bind (removeBookFromAuthors flt i (Some (authors old)) (Some session)) (\<lambda>_.
               commitTransaction flt session)))
          (on_error adaptError flt session))
       (endSession session)))"

section \<open>Example data\<close>

definition noFaults :: "step \<Rightarrow> exn option" where
  "noFaults = (\<lambda>_. None)"

definition faultAt :: "step \<Rightarrow> step \<Rightarrow> exn option" where
  "faultAt s = (\<lambda>st. if st = s then Some (StorageError ''unavailable'') else None)"

definition bookOf :: "ident \<Rightarrow> string \<Rightarrow> ident list \<Rightarrow> IBookDocument" where
  "bookOf i t as =
     \<lparr>title = t, description = '''', price = 10, numberOfPages = 100, book_id = i, authors = as\<rparr>"

text \<open>Two books and three authors, with the references of both sides in agreement.\<close>

definition library :: db where
  "library =
     \<lparr>BookModel = [bookOf ''B1'' ''Dune'' [''A1'', ''A2''], bookOf ''B2'' ''Emma'' [''A2'']],
      AuthorModel = [\<lparr>author_id = ''A1'', name = ''Ann'', books = [''B1'']\<rparr>,
                     \<lparr>author_id = ''A2'', name = ''Bob'', books = [''B1'', ''B2'']\<rparr>,
                     \<lparr>author_id = ''A3'', name = ''Cy'', books = []\<rparr>]\<rparr>"

definition w0 :: world where
  "w0 = \<lparr>committed = library, pending = [], trace = []\<rparr>"

definition payload :: "ident list option \<Rightarrow> ICreateBook" where
  "payload as =
     \<lparr>title = ''Dune'', description = '''', price = 10, numberOfPages = 100, create_authors = as\<rparr>"

definition only_authors :: "ident list option \<Rightarrow> IUpdateBook" where
  "only_authors as =
     \<lparr>update_title = None, update_description = None, update_price = None,
      update_numberOfPages = None, update_authors = as\<rparr>"

definition books_of :: "ident \<Rightarrow> db \<Rightarrow> ident list option" where
  "books_of a s = map_option books (find (\<lambda>d. author_id d = a) (AuthorModel s))"

section \<open>Notions used in the statements\<close>

text \<open>The summaries of the authors of \<open>s\<close> whose id is requested, in storage order.\<close>

definition summaries :: "ident list option \<Rightarrow> db \<Rightarrow> IBookAuthorObject list" where
  "summaries authorsIds s =
     (case authorsIds of
        None \<Rightarrow> []
      | Some ids \<Rightarrow> map (\<lambda>a. \<lparr>ba_id = author_id a, ba_name = Some (name a)\<rparr>)
                     (filter (\<lambda>a. author_id a \<in> set ids) (AuthorModel s)))"

text \<open>A requested list is resolvable in \<open>s\<close>: no id twice, every id that of a stored author.\<close>

definition resolvable :: "ident list option \<Rightarrow> db \<Rightarrow> bool" where
  "resolvable authorsIds s =
     (case authorsIds of
        None \<Rightarrow> True
      | Some ids \<Rightarrow> distinct ids \<and> set ids \<subseteq> author_id ` set (AuthorModel s))"

text \<open>Events that lie between opening and releasing a session.\<close>

definition inside :: "event \<Rightarrow> bool" where
  "inside e = (e \<noteq> StartSession \<and> e \<noteq> EndSession)"

text \<open>Events other than an author-side bulk update issued without a session.\<close>

definition in_session :: "event \<Rightarrow> bool" where
  "in_session e = (e \<noteq> Call PushAuthors None \<and> e \<noteq> Call PullAuthors None)"

text \<open>Events other than an author-side bulk update.\<close>

definition no_sync :: "event \<Rightarrow> bool" where
  "no_sync e = (case e of Call st _ \<Rightarrow> st \<noteq> PushAuthors \<and> st \<noteq> PullAuthors | _ \<Rightarrow> True)"

text \<open>Every run of \<open>m\<close> appends to the trace only events that satisfy \<open>P\<close>.\<close>

definition emits :: "(event \<Rightarrow> bool) \<Rightarrow> 'a io \<Rightarrow> bool" where
  "emits P m = (\<forall>w. \<exists>evs. trace (snd (m w)) = trace w @ evs \<and> list_all P evs)"

text \<open>Every value that \<open>m\<close> returns satisfies \<open>Q\<close>.\<close>

definition returns :: "('a \<Rightarrow> bool) \<Rightarrow> 'a io \<Rightarrow> bool" where
  "returns Q m = (\<forall>w. case fst (m w) of Inl e \<Rightarrow> True | Inr x \<Rightarrow> Q x)"

text \<open>No run of \<open>m\<close> changes the committed data.\<close>

definition keeps :: "'a io \<Rightarrow> bool" where
  "keeps m = (\<forall>w. committed (snd (m w)) = committed w)"

text \<open>A run of \<open>m\<close> that throws leaves the committed data as it was.\<close>

definition fails_keep :: "'a io \<Rightarrow> bool" where
  "fails_keep m = (\<forall>w. isl (fst (m w)) \<longrightarrow> committed (snd (m w)) = committed w)"

section \<open>Unfolding and evaluation\<close>

named_theorems io_defs

lemmas [io_defs] =
  ret_def throw_def bind_def try_catch_def try_finally_def call_def read_db_def write_db_def
  startSession_def startTransaction_def commitTransaction_def abortTransaction_def endSession_def
  visible_def view_def

named_theorems model_defs

lemmas [model_defs] =
  AuthorModel_find_def AuthorModel_updateMany_push_def AuthorModel_updateMany_pull_def
  BookModel_findById_def save_def BookModel_findOneAndReplace_def BookModel_findByIdAndUpdate_def
  BookModel_findByIdAndDelete_def new_BookModel_def patch_def

named_theorems repo_defs

lemmas [repo_defs] =
  findBookAuthors_def validateBookAuthors_def addBookToAuthors_def removeBookFromAuthors_def
  updateBookAuthors_def documentToBook_def on_error_def create_def replace_def update_def
  delete_def

named_theorems example_defs

lemmas [example_defs] =
  noFaults_def faultAt_def bookOf_def library_def w0_def payload_def only_authors_def books_of_def

lemma view_fresh [simp]: "view (w\<lparr>pending := []\<rparr>) = committed w"
  by (simp add: view_def)

lemma view_trace [simp]: "view (w\<lparr>trace := t\<rparr>) = view w"
  by (simp add: view_def)

lemma visible_trace [simp]: "visible session (w\<lparr>trace := t\<rparr>) = visible session w"
  by (simp add: visible_def split: option.splits)

lemma find_append:
  "find P (xs @ ys) = (case find P xs of None \<Rightarrow> find P ys | Some x \<Rightarrow> Some x)"
  by (induction xs) simp_all

lemma find_snoc: "find P xs = None \<Longrightarrow> P d \<Longrightarrow> find P (xs @ [d]) = Some d"
  by (simp add: find_append)

lemma find_map_patch:
  "find (\<lambda>d. book_id d = i) (map (\<lambda>x. if book_id x = i then patch data x else x) xs)
     = map_option (patch data) (find (\<lambda>d. book_id d = i) xs)"
  by (induction xs) (simp_all add: patch_def)

lemma read_authors_cached [simp]: "read_authors (documentToBook d p (Some c)) = c"
  by (simp add: documentToBook_def)

section \<open>The validator\<close>

lemma validate_absent: "validateBookAuthors flt None session w = (Inr [], w)"
  by (simp add: validateBookAuthors_def ret_def)

lemma validate_empty_ok:
  "flt FindAuthors = None \<Longrightarrow>
   validateBookAuthors flt (Some []) session w =
     (Inr [], w\<lparr>trace := trace w @ [Call FindAuthors session]\<rparr>)"
  by (simp add: validateBookAuthors_def findBookAuthors_def AuthorModel_find_def io_defs)

lemma validate_empty_fail:
  "flt FindAuthors = Some e \<Longrightarrow>
   validateBookAuthors flt (Some []) session w =
     (Inl e, w\<lparr>trace := trace w @ [Call FindAuthors session]\<rparr>)"
  by (simp add: validateBookAuthors_def findBookAuthors_def AuthorModel_find_def io_defs)

text \<open>With unique author ids, a duplicate-free list of stored ids fetches one record per id.\<close>

lemma found_all:
  assumes "distinct (map author_id as)" and "distinct ids"
    and "set ids \<subseteq> author_id ` set as"
  shows "length (filter (\<lambda>a. author_id a \<in> set ids) as) = length ids"
proof -
  have "length (filter (\<lambda>a. author_id a \<in> set ids) as)
        = length (filter (\<lambda>k. k \<in> set ids) (map author_id as))"
    by (simp add: filter_map comp_def)
  also have "\<dots> = card ({k. k \<in> set ids} \<inter> set (map author_id as))"
    using assms(1) by (rule distinct_length_filter)
  also have "{k. k \<in> set ids} \<inter> set (map author_id as) = set ids"
    using assms(3) by auto
  also have "card (set ids) = length ids"
    using assms(2) by (rule distinct_card)
  finally show ?thesis .
qed

lemma validate_ok:
  assumes "flt FindAuthors = None"
    and "distinct (map author_id (AuthorModel (visible session w)))" and "distinct ids"
    and "set ids \<subseteq> author_id ` set (AuthorModel (visible session w))"
  shows "validateBookAuthors flt (Some ids) session w =
     (Inr (map (\<lambda>a. \<lparr>ba_id = author_id a, ba_name = Some (name a)\<rparr>)
             (filter (\<lambda>a. author_id a \<in> set ids) (AuthorModel (visible session w)))),
      w\<lparr>trace := trace w @ [Call FindAuthors session]\<rparr>)"
proof -
  have "length (filter (\<lambda>a. author_id a \<in> set ids) (AuthorModel (visible session w))) = length ids"
    using assms(2-4) by (rule found_all)
  moreover have "card (set ids) = length ids" using assms(3) by (rule distinct_card)
  ultimately show ?thesis
    using assms(1)
    by (simp add: validateBookAuthors_def findBookAuthors_def AuthorModel_find_def
        ret_def throw_def bind_def call_def read_db_def Let_def)
qed

lemma validate_resolvable:
  assumes "flt FindAuthors = None"
    and "distinct (map author_id (AuthorModel (visible session w)))"
    and "resolvable authorsIds (visible session w)"
  shows "fst (validateBookAuthors flt authorsIds session w)
           = Inr (summaries authorsIds (visible session w))"
    and "committed (snd (validateBookAuthors flt authorsIds session w)) = committed w"
    and "pending (snd (validateBookAuthors flt authorsIds session w)) = pending w"
  using assms
  by (cases authorsIds; simp add: validate_absent validate_ok summaries_def resolvable_def)+

text \<open>
  C6 (as amended): an absent list makes the validator return the empty sequence with no
  fetch. An empty list is not caught by the early return: one bulk fetch of author records
  is issued; when it succeeds the validator returns the empty sequence, and when it fails
  the validator fails with the error of the fetch.
\<close>

theorem validateBookAuthors_absent_or_empty:
  "validateBookAuthors flt None session w = (Inr [], w) \<and>
   (flt FindAuthors = None \<longrightarrow>
      validateBookAuthors flt (Some []) session w =
        (Inr [], w\<lparr>trace := trace w @ [Call FindAuthors session]\<rparr>)) \<and>
   (\<forall>e. flt FindAuthors = Some e \<longrightarrow>
      validateBookAuthors flt (Some []) session w =
        (Inl e, w\<lparr>trace := trace w @ [Call FindAuthors session]\<rparr>))"
  by (simp add: validate_absent validate_empty_ok validate_empty_fail)

text \<open>The statement at the example world, without faults and with a failing fetch.\<close>

theorem validateBookAuthors_absent_or_empty_witness:
  "noFaults FindAuthors = None \<and>
   faultAt FindAuthors FindAuthors = Some (StorageError ''unavailable'') \<and>
   validateBookAuthors noFaults None (Some ClientSession) w0 = (Inr [], w0) \<and>
   validateBookAuthors noFaults (Some []) (Some ClientSession) w0 =
     (Inr [], w0\<lparr>trace := [Call FindAuthors (Some ClientSession)]\<rparr>) \<and>
   validateBookAuthors (faultAt FindAuthors) (Some []) (Some ClientSession) w0 =
     (Inl (StorageError ''unavailable''), w0\<lparr>trace := [Call FindAuthors (Some ClientSession)]\<rparr>)"
  using validateBookAuthors_absent_or_empty [of noFaults "Some ClientSession" w0]
    validateBookAuthors_absent_or_empty [of "faultAt FindAuthors" "Some ClientSession" w0]
  by (simp add: noFaults_def faultAt_def w0_def)

text \<open>
  C6 as stated fails: validating the empty list records a fetch of author records that the
  trace did not hold before.
\<close>

theorem validateBookAuthors_empty_counterexample:
  "Call FindAuthors (Some ClientSession)
     \<in> set (trace (snd (validateBookAuthors noFaults (Some []) (Some ClientSession) w0)))
   \<and> Call FindAuthors (Some ClientSession) \<notin> set (trace w0)"
  by (simp add: validateBookAuthors_def findBookAuthors_def AuthorModel_find_def io_defs
      example_defs)

section \<open>The reference synchronizer\<close>

lemma pull_effect:
  "flt PullAuthors = None \<Longrightarrow>
   AuthorModel (visible session (snd (removeBookFromAuthors flt b old session w))) =
     map (\<lambda>a. if author_id a \<in> set (case old of None \<Rightarrow> [] | Some ids \<Rightarrow> ids)
              then a\<lparr>books := removeAll b (books a)\<rparr> else a)
       (AuthorModel (visible session w))"
  by (cases session; cases old)
     (simp_all add: removeBookFromAuthors_def AuthorModel_updateMany_pull_def io_defs)

lemma pull_succeeds:
  "flt PullAuthors = None \<Longrightarrow> fst (removeBookFromAuthors flt b old session w) = Inr ()"
  by (cases session; cases old)
     (simp_all add: removeBookFromAuthors_def AuthorModel_updateMany_pull_def io_defs)

lemma add_once:
  "flt PushAuthors = None \<Longrightarrow> b \<noteq> [] \<Longrightarrow>
   AuthorModel (visible session (snd (addBookToAuthors flt (Some b) (Some ids) session w))) =
     map (\<lambda>a. if author_id a \<in> set ids then a\<lparr>books := books a @ [b]\<rparr> else a)
       (AuthorModel (visible session w))"
  by (cases session) (simp_all add: addBookToAuthors_def AuthorModel_updateMany_push_def io_defs)

lemma add_twice:
  "flt PushAuthors = None \<Longrightarrow> b \<noteq> [] \<Longrightarrow>
   AuthorModel (visible session
       (snd (addBookToAuthors flt (Some b) (Some ids) session
          (snd (addBookToAuthors flt (Some b) (Some ids) session w))))) =
     map (\<lambda>a. if author_id a \<in> set ids then a\<lparr>books := books a @ [b, b]\<rparr> else a)
       (AuthorModel (visible session w))"
  by (simp add: add_once comp_def)

lemma sync_steps:
  "fst (removeBookFromAuthors flt b old session w) = Inr () \<Longrightarrow>
   snd (updateBookAuthors flt b new old session w) =
     snd (addBookToAuthors flt (Some b) new session (snd (removeBookFromAuthors flt b old session w)))"
  by (cases "removeBookFromAuthors flt b old session w") (simp add: updateBookAuthors_def bind_def)

lemma pull_then_push:
  "map (\<lambda>a. if author_id a \<in> N then a\<lparr>books := books a @ [b]\<rparr> else a)
     (map (\<lambda>a. if author_id a \<in> R then a\<lparr>books := removeAll b (books a)\<rparr> else a) xs) =
   map (\<lambda>a. a\<lparr>books := (if author_id a \<in> R then removeAll b (books a) else books a)
                         @ (if author_id a \<in> N then [b] else [])\<rparr>) xs"
  by (induction xs) auto

lemma sync_effect:
  assumes "flt PullAuthors = None" and "flt PushAuthors = None" and "b \<noteq> []"
  shows "AuthorModel (visible session (snd (updateBookAuthors flt b (Some new) old session w))) =
     map (\<lambda>a. a\<lparr>books :=
                 (if author_id a \<in> set (case old of None \<Rightarrow> [] | Some ids \<Rightarrow> ids)
                  then removeAll b (books a) else books a)
                 @ (if author_id a \<in> set new then [b] else [])\<rparr>)
       (AuthorModel (visible session w))"
proof -
  have "AuthorModel (visible session (snd (updateBookAuthors flt b (Some new) old session w))) =
      map (\<lambda>a. if author_id a \<in> set new then a\<lparr>books := books a @ [b]\<rparr> else a)
        (map (\<lambda>a. if author_id a \<in> set (case old of None \<Rightarrow> [] | Some ids \<Rightarrow> ids)
                 then a\<lparr>books := removeAll b (books a)\<rparr> else a)
           (AuthorModel (visible session w)))"
    using assms by (simp add: sync_steps pull_succeeds add_once pull_effect)
  also have "\<dots> = map (\<lambda>a. a\<lparr>books :=
                 (if author_id a \<in> set (case old of None \<Rightarrow> [] | Some ids \<Rightarrow> ids)
                  then removeAll b (books a) else books a)
                 @ (if author_id a \<in> set new then [b] else [])\<rparr>)
       (AuthorModel (visible session w))"
    by (rule pull_then_push)
  finally show ?thesis .
qed

text \<open>
  C1 (as amended): the synchronizer of replace and update does not compute a delta. With a
  non-empty book id and both bulk updates succeeding, it pulls the book id from every author
  of the old list and then pushes it to every author of the new list. So afterwards the
  books of an author are its former books, without any occurrence of the book id when the
  author is in the old list, followed by one occurrence of the book id when the author is in
  the new list: an author in both lists has the id removed and appended again, an author only
  in the old list loses it, an author only in the new list gains it, and any other author is
  left as it was.
\<close>

theorem updateBookAuthors_pulls_old_then_pushes_new:
  assumes "flt PullAuthors = None" and "flt PushAuthors = None" and "b \<noteq> []"
  shows "AuthorModel (visible session (snd (updateBookAuthors flt b (Some new) old session w))) =
     map (\<lambda>a. a\<lparr>books :=
                 (if author_id a \<in> set (case old of None \<Rightarrow> [] | Some ids \<Rightarrow> ids)
                  then removeAll b (books a) else books a)
                 @ (if author_id a \<in> set new then [b] else [])\<rparr>)
       (AuthorModel (visible session w))"
  using assms by (rule sync_effect)

text \<open>The book \<open>B1\<close> of the example goes from the authors \<open>A1, A2\<close> to \<open>A2, A3\<close>.\<close>

theorem updateBookAuthors_pulls_old_then_pushes_new_witness:
  "noFaults PullAuthors = None \<and> noFaults PushAuthors = None \<and> ''B1'' \<noteq> [] \<and>
   AuthorModel (visible (Some ClientSession)
       (snd (updateBookAuthors noFaults ''B1'' (Some [''A2'', ''A3'']) (Some [''A1'', ''A2''])
               (Some ClientSession) w0))) =
     [\<lparr>author_id = ''A1'', name = ''Ann'', books = []\<rparr>,
      \<lparr>author_id = ''A2'', name = ''Bob'', books = [''B2'', ''B1'']\<rparr>,
      \<lparr>author_id = ''A3'', name = ''Cy'', books = [''B1'']\<rparr>]"
  using updateBookAuthors_pulls_old_then_pushes_new
    [of noFaults "''B1''" "Some ClientSession" "[''A2'', ''A3'']" "Some [''A1'', ''A2'']" w0]
  by (simp add: noFaults_def w0_def library_def visible_def view_def)

text \<open>
  C1 as stated fails: updating \<open>B1\<close> from the authors \<open>A1, A2\<close> to \<open>A2, A3\<close> changes the
  books of \<open>A2\<close>, an author of both lists: the id is removed and appended again.
\<close>

theorem update_readds_shared_author_counterexample:
  "books_of ''A2'' (committed w0) = Some [''B1'', ''B2''] \<and>
   books_of ''A2''
     (committed (snd (update id noFaults ''B1'' (only_authors (Some [''A2'', ''A3''])) w0)))
     = Some [''B2'', ''B1'']"
  by (simp add: repo_defs model_defs io_defs example_defs List.card_set)

text \<open>
  C2 (as amended): the addition step is not idempotent. With a non-empty book id and the bulk
  update succeeding, each invocation appends one occurrence of the book id to the books of
  every author of the given list, whether or not the id is already there; two invocations
  with the same delta append two occurrences.
\<close>

theorem addBookToAuthors_appends_each_time:
  assumes "flt PushAuthors = None" and "b \<noteq> []"
  shows "AuthorModel (visible session (snd (addBookToAuthors flt (Some b) (Some ids) session w))) =
           map (\<lambda>a. if author_id a \<in> set ids then a\<lparr>books := books a @ [b]\<rparr> else a)
             (AuthorModel (visible session w))
       \<and> AuthorModel (visible session
             (snd (addBookToAuthors flt (Some b) (Some ids) session
                (snd (addBookToAuthors flt (Some b) (Some ids) session w))))) =
           map (\<lambda>a. if author_id a \<in> set ids then a\<lparr>books := books a @ [b, b]\<rparr> else a)
             (AuthorModel (visible session w))"
  using assms by (simp add: add_once add_twice)

theorem addBookToAuthors_appends_each_time_witness:
  "noFaults PushAuthors = None \<and> ''B2'' \<noteq> [] \<and>
   AuthorModel (visible None
       (snd (addBookToAuthors noFaults (Some ''B2'') (Some [''A3'']) None w0))) =
     [\<lparr>author_id = ''A1'', name = ''Ann'', books = [''B1'']\<rparr>,
      \<lparr>author_id = ''A2'', name = ''Bob'', books = [''B1'', ''B2'']\<rparr>,
      \<lparr>author_id = ''A3'', name = ''Cy'', books = [''B2'']\<rparr>] \<and>
   AuthorModel (visible None
       (snd (addBookToAuthors noFaults (Some ''B2'') (Some [''A3'']) None
          (snd (addBookToAuthors noFaults (Some ''B2'') (Some [''A3'']) None w0))))) =
     [\<lparr>author_id = ''A1'', name = ''Ann'', books = [''B1'']\<rparr>,
      \<lparr>author_id = ''A2'', name = ''Bob'', books = [''B1'', ''B2'']\<rparr>,
      \<lparr>author_id = ''A3'', name = ''Cy'', books = [''B2'', ''B2'']\<rparr>]"
  using addBookToAuthors_appends_each_time [of noFaults "''B2''" None "[''A3'']" w0]
  by (simp add: noFaults_def w0_def library_def visible_def)

text \<open>
  C2 as stated fails: adding \<open>B2\<close> to the author \<open>A3\<close> twice leaves \<open>B2\<close> twice in the
  books of \<open>A3\<close>.
\<close>

theorem addBookToAuthors_twice_counterexample:
  "books_of ''A3''
     (committed (snd (addBookToAuthors noFaults (Some ''B2'') (Some [''A3'']) None
        (snd (addBookToAuthors noFaults (Some ''B2'') (Some [''A3'']) None w0)))))
     = Some [''B2'', ''B2'']
   \<and> \<not> distinct [''B2'', ''B2'']"
  by (simp add: repo_defs model_defs io_defs example_defs)

section \<open>What an operation appends to the trace\<close>

named_theorems emits_intros

lemma emits_ret [emits_intros]: "emits P (ret x)"
  by (simp add: emits_def ret_def)

lemma emits_throw [emits_intros]: "emits P (throw e)"
  by (simp add: emits_def throw_def)

lemma emits_bind [emits_intros]:
  assumes "emits P m" and "\<And>x. emits P (f x)"
  shows "emits P (bind m f)"
  unfolding emits_def
proof
  fix w
  obtain evs where m: "trace (snd (m w)) = trace w @ evs" "list_all P evs"
    using assms(1) unfolding emits_def by blast
  show "\<exists>evs. trace (snd (bind m f w)) = trace w @ evs \<and> list_all P evs"
  proof (cases "m w")
    case (Pair r w')
    show ?thesis
    proof (cases r)
      case (Inl e)
      with Pair m show ?thesis by (auto simp: bind_def)
    next
      case (Inr x)
      obtain evs' where f: "trace (snd (f x w')) = trace w' @ evs'" "list_all P evs'"
        using assms(2) unfolding emits_def by blast
      with Pair Inr m have "trace (snd (bind m f w)) = trace w @ (evs @ evs')"
        by (simp add: bind_def)
      moreover have "list_all P (evs @ evs')" using m f by simp
      ultimately show ?thesis by blast
    qed
  qed
qed

lemma emits_try_catch [emits_intros]:
  assumes "emits P m" and "\<And>e. emits P (h e)"
  shows "emits P (try_catch m h)"
  unfolding emits_def
proof
  fix w
  obtain evs where m: "trace (snd (m w)) = trace w @ evs" "list_all P evs"
    using assms(1) unfolding emits_def by blast
  show "\<exists>evs. trace (snd (try_catch m h w)) = trace w @ evs \<and> list_all P evs"
  proof (cases "m w")
    case (Pair r w')
    show ?thesis
    proof (cases r)
      case (Inr x)
      with Pair m show ?thesis by (auto simp: try_catch_def)
    next
      case (Inl e)
      obtain evs' where h: "trace (snd (h e w')) = trace w' @ evs'" "list_all P evs'"
        using assms(2) unfolding emits_def by blast
      with Pair Inl m have "trace (snd (try_catch m h w)) = trace w @ (evs @ evs')"
        by (simp add: try_catch_def)
      moreover have "list_all P (evs @ evs')" using m h by simp
      ultimately show ?thesis by blast
    qed
  qed
qed

lemma emits_call [emits_intros]: "P (Call st session) \<Longrightarrow> emits P (call flt st session)"
  by (auto simp: emits_def call_def Let_def split: option.splits)

lemma emits_read_db [emits_intros]: "emits P (read_db session)"
  by (simp add: emits_def read_db_def)

lemma emits_write_db [emits_intros]: "emits P (write_db session x)"
  by (auto simp: emits_def write_db_def split: option.splits)

lemma emits_commit [emits_intros]:
  "P CommitTransaction \<Longrightarrow> emits P (commitTransaction flt session)"
  by (auto simp: emits_def commitTransaction_def split: option.splits)

lemma emits_abort [emits_intros]:
  "P AbortTransaction \<Longrightarrow> emits P (abortTransaction flt session)"
  by (auto simp: emits_def abortTransaction_def split: option.splits)

lemma emits_if [emits_intros]: "emits P m \<Longrightarrow> emits P n \<Longrightarrow> emits P (if c then m else n)"
  by simp

lemma emits_case_option [emits_intros]:
  "emits P m \<Longrightarrow> (\<And>x. emits P (f x)) \<Longrightarrow> emits P (case v of None \<Rightarrow> m | Some x \<Rightarrow> f x)"
  by (cases v) simp_all

lemma emits_AuthorModel_find [emits_intros]:
  "P (Call FindAuthors session) \<Longrightarrow> emits P (AuthorModel_find flt ids session)"
  unfolding AuthorModel_find_def by (intro emits_intros) simp_all

lemma emits_push [emits_intros]:
  "P (Call PushAuthors session) \<Longrightarrow> emits P (AuthorModel_updateMany_push flt ids b session)"
  unfolding AuthorModel_updateMany_push_def by (intro emits_intros) simp_all

lemma emits_pull [emits_intros]:
  "P (Call PullAuthors session) \<Longrightarrow> emits P (AuthorModel_updateMany_pull flt ids b session)"
  unfolding AuthorModel_updateMany_pull_def by (intro emits_intros) simp_all

lemma emits_findById [emits_intros]:
  "P (Call FindBook session) \<Longrightarrow> emits P (BookModel_findById flt i session)"
  unfolding BookModel_findById_def by (intro emits_intros) simp_all

lemma emits_save [emits_intros]:
  "P (Call SaveBook session) \<Longrightarrow> emits P (save flt d session)"
  unfolding save_def by (intro emits_intros) simp_all

lemma emits_findOneAndReplace [emits_intros]:
  "P (Call ReplaceBook session) \<Longrightarrow> emits P (BookModel_findOneAndReplace flt i data session)"
  unfolding BookModel_findOneAndReplace_def by (intro emits_intros) simp_all

lemma emits_findByIdAndUpdate [emits_intros]:
  "P (Call UpdateBook session) \<Longrightarrow> emits P (BookModel_findByIdAndUpdate flt i data session)"
  unfolding BookModel_findByIdAndUpdate_def by (intro emits_intros) simp_all

lemma emits_findByIdAndDelete [emits_intros]:
  "P (Call DeleteBook session) \<Longrightarrow> emits P (BookModel_findByIdAndDelete flt i session)"
  unfolding BookModel_findByIdAndDelete_def by (intro emits_intros) simp_all

lemma emits_findBookAuthors [emits_intros]:
  "P (Call FindAuthors session) \<Longrightarrow> emits P (findBookAuthors flt ids session)"
  unfolding findBookAuthors_def by (intro emits_intros) simp_all

lemma emits_validate [emits_intros]:
  "P (Call FindAuthors session) \<Longrightarrow> emits P (validateBookAuthors flt ids session)"
  unfolding validateBookAuthors_def Let_def by (intro emits_intros) simp_all

lemma emits_add [emits_intros]:
  "P (Call PushAuthors session) \<Longrightarrow> emits P (addBookToAuthors flt b ids session)"
  unfolding addBookToAuthors_def by (cases b; cases ids) (auto intro!: emits_intros)

lemma emits_remove [emits_intros]:
  "P (Call PullAuthors session) \<Longrightarrow> emits P (removeBookFromAuthors flt b ids session)"
  unfolding removeBookFromAuthors_def by (intro emits_intros) simp_all

lemma emits_sync [emits_intros]:
  "P (Call PullAuthors session) \<Longrightarrow> P (Call PushAuthors session) \<Longrightarrow>
   emits P (updateBookAuthors flt b new old session)"
  unfolding updateBookAuthors_def by (intro emits_intros) simp_all

lemma emits_on_error [emits_intros]:
  "P AbortTransaction \<Longrightarrow> emits P (on_error adaptError flt session e)"
  unfolding on_error_def by (intro emits_intros) simp_all

text \<open>
  The frame shared by the four operations: open, begin, run the guarded body, release. When
  the transaction cannot be started, nothing after the opening of the session is run.
\<close>

lemma transaction_unstarted:
  assumes "flt BeginTransaction = Some e"
  shows "bind startSession (\<lambda>session. bind (startTransaction flt session)
           (\<lambda>_. try_finally (body session) (endSession session))) w
         = (Inl e, w\<lparr>trace := trace w @ [StartSession]\<rparr>)"
  using assms by (simp add: bind_def startSession_def startTransaction_def)

lemma transaction_trace:
  assumes "flt BeginTransaction = None" and "\<And>session. emits P (body session)"
  shows "\<exists>evs. trace (snd (bind startSession (\<lambda>session. bind (startTransaction flt session)
           (\<lambda>_. try_finally (body session) (endSession session))) w))
         = trace w @ [StartSession, StartTransaction] @ evs @ [EndSession] \<and> list_all P evs"
proof -
  define w2 where "w2 = w\<lparr>pending := [], trace := trace w @ [StartSession, StartTransaction]\<rparr>"
  obtain evs where b: "trace (snd (body ClientSession w2)) = trace w2 @ evs" "list_all P evs"
    using assms(2) unfolding emits_def by blast
  have "trace (snd (bind startSession (\<lambda>session. bind (startTransaction flt session)
           (\<lambda>_. try_finally (body session) (endSession session))) w))
        = trace (snd (body ClientSession w2)) @ [EndSession]"
    using assms(1)
    by (simp add: bind_def startSession_def startTransaction_def try_finally_def endSession_def
        w2_def split: prod.splits)
  with b show ?thesis by (auto simp: w2_def)
qed

lemma transaction_events:
  assumes "\<And>session. emits P (body session)"
    and "P StartSession" and "P StartTransaction" and "P EndSession"
  shows "\<exists>evs. trace (snd (bind startSession (\<lambda>session. bind (startTransaction flt session)
           (\<lambda>_. try_finally (body session) (endSession session))) w))
         = trace w @ evs \<and> list_all P evs"
proof (cases "flt BeginTransaction")
  case None
  from transaction_trace [where flt = flt and P = P and body = body and w = w, OF None assms(1)]
  obtain evs where
    "trace (snd (bind startSession (\<lambda>session. bind (startTransaction flt session)
           (\<lambda>_. try_finally (body session) (endSession session))) w))
       = trace w @ ([StartSession, StartTransaction] @ evs @ [EndSession])" "list_all P evs"
    by auto
  moreover from this assms(2-4) have "list_all P ([StartSession, StartTransaction] @ evs @ [EndSession])"
    by simp
  ultimately show ?thesis by blast
next
  case (Some e)
  have "trace (snd (bind startSession (\<lambda>session. bind (startTransaction flt session)
           (\<lambda>_. try_finally (body session) (endSession session))) w)) = trace w @ [StartSession]"
    using Some by (simp add: transaction_unstarted)
  moreover have "list_all P [StartSession]" using assms(2) by simp
  ultimately show ?thesis by blast
qed

lemma create_events:
  assumes "flt BeginTransaction = None"
    and "\<And>st s. P (Call st (Some s))" and "P CommitTransaction" and "P AbortTransaction"
  shows "\<exists>evs. trace (snd (create adaptError flt newId data w))
         = trace w @ [StartSession, StartTransaction] @ evs @ [EndSession] \<and> list_all P evs"
  unfolding create_def Let_def
  by (rule transaction_trace, rule assms(1)) (intro emits_intros assms(2-))

lemma update_events:
  assumes "flt BeginTransaction = None"
    and "\<And>st s. P (Call st (Some s))" and "P CommitTransaction" and "P AbortTransaction"
  shows "\<exists>evs. trace (snd (update adaptError flt i data w))
         = trace w @ [StartSession, StartTransaction] @ evs @ [EndSession] \<and> list_all P evs"
  unfolding update_def
  by (rule transaction_trace, rule assms(1)) (intro emits_intros assms(2-))

lemma delete_events:
  assumes "flt BeginTransaction = None"
    and "\<And>st s. P (Call st (Some s))" and "P CommitTransaction" and "P AbortTransaction"
  shows "\<exists>evs. trace (snd (delete adaptError flt i w))
         = trace w @ [StartSession, StartTransaction] @ evs @ [EndSession] \<and> list_all P evs"
  unfolding delete_def
  by (rule transaction_trace, rule assms(1)) (intro emits_intros assms(2-))

lemma replace_events:
  assumes "flt BeginTransaction = None"
    and "\<And>st s. P (Call st s)" and "P CommitTransaction" and "P AbortTransaction"
  shows "\<exists>evs. trace (snd (replace adaptError flt i data w))
         = trace w @ [StartSession, StartTransaction] @ evs @ [EndSession] \<and> list_all P evs"
  unfolding replace_def
  by (rule transaction_trace, rule assms(1)) (intro emits_intros assms(2-))

text \<open>
  Once the transaction has started, whatever storage call fails afterwards (a commit or an
  abort included), each operation releases its session exactly once, as its last event.
\<close>

lemma session_released_once_started:
  assumes "flt BeginTransaction = None"
  shows
  "(\<exists>evs. trace (snd (create adaptError flt newId cdata w))
         = trace w @ [StartSession, StartTransaction] @ evs @ [EndSession] \<and> list_all inside evs) \<and>
   (\<exists>evs. trace (snd (replace adaptError flt i cdata w))
         = trace w @ [StartSession, StartTransaction] @ evs @ [EndSession] \<and> list_all inside evs) \<and>
   (\<exists>evs. trace (snd (update adaptError flt i udata w))
         = trace w @ [StartSession, StartTransaction] @ evs @ [EndSession] \<and> list_all inside evs) \<and>
   (\<exists>evs. trace (snd (delete adaptError flt i w))
         = trace w @ [StartSession, StartTransaction] @ evs @ [EndSession] \<and> list_all inside evs)"
  by (intro conjI create_events replace_events update_events delete_events assms)
     (simp_all add: inside_def)

text \<open>
  C9 fails when the transaction cannot be started: \<open>startTransaction\<close> stands before the
  \<open>try\<close> block, so its error leaves each of the four operations with the session opened
  and never released.
\<close>

theorem session_leaks_when_start_fails:
  "create id (faultAt BeginTransaction) ''B3'' (payload (Some [''A1''])) w0
     = (Inl (StorageError ''unavailable''), w0\<lparr>trace := [StartSession]\<rparr>) \<and>
   replace id (faultAt BeginTransaction) ''B1'' (payload (Some [''A2'', ''A3''])) w0
     = (Inl (StorageError ''unavailable''), w0\<lparr>trace := [StartSession]\<rparr>) \<and>
   update id (faultAt BeginTransaction) ''B1'' (only_authors (Some [''A2''])) w0
     = (Inl (StorageError ''unavailable''), w0\<lparr>trace := [StartSession]\<rparr>) \<and>
   delete id (faultAt BeginTransaction) ''B1'' w0
     = (Inl (StorageError ''unavailable''), w0\<lparr>trace := [StartSession]\<rparr>) \<and>
   count_list (trace (snd (delete id (faultAt BeginTransaction) ''B1'' w0))) StartSession = 1 \<and>
   count_list (trace (snd (delete id (faultAt BeginTransaction) ''B1'' w0))) EndSession = 0"
  by (simp add: create_def replace_def update_def delete_def bind_def startSession_def
      startTransaction_def faultAt_def w0_def)

text \<open>
  Create, update and delete hand their session to every author-side bulk update, whatever
  fails: none of the events of these operations is such an update issued without a session.
\<close>

lemma author_updates_in_session:
  "(\<exists>evs. trace (snd (create adaptError flt newId cdata w)) = trace w @ evs \<and>
         list_all in_session evs) \<and>
   (\<exists>evs. trace (snd (update adaptError flt i udata w)) = trace w @ evs \<and>
         list_all in_session evs) \<and>
   (\<exists>evs. trace (snd (delete adaptError flt i w)) = trace w @ evs \<and>
         list_all in_session evs)"
  unfolding create_def update_def delete_def Let_def
  by (intro conjI transaction_events emits_intros) (simp_all add: in_session_def)

text \<open>
  C3 fails on replace: replacing \<open>B1\<close> of the example, with nothing failing, issues the book
  write with the session and both author-side bulk updates without one.
\<close>

theorem replace_syncs_outside_session:
  "trace (snd (replace id noFaults ''B1'' (payload (Some [''A2'', ''A3''])) w0)) =
     [StartSession, StartTransaction, Call FindAuthors (Some ClientSession),
      Call FindBook (Some ClientSession), Call ReplaceBook (Some ClientSession),
      Call PullAuthors None, Call PushAuthors None, CommitTransaction, EndSession]"
  by (simp add: repo_defs model_defs io_defs example_defs List.card_set)

section \<open>Atomicity of the operations that pass their session on\<close>

named_theorems keeps_intros

lemma keeps_ret [keeps_intros]: "keeps (ret x)"
  by (simp add: keeps_def ret_def)

lemma keeps_throw [keeps_intros]: "keeps (throw e)"
  by (simp add: keeps_def throw_def)

lemma keeps_bind [keeps_intros]:
  assumes "keeps m" and "\<And>x. keeps (f x)"
  shows "keeps (bind m f)"
  unfolding keeps_def
proof
  fix w
  show "committed (snd (bind m f w)) = committed w"
  proof (cases "m w")
    case (Pair r w')
    with assms(1) have c: "committed w' = committed w"
      by (auto simp: keeps_def dest: spec [of _ w])
    show ?thesis
    proof (cases r)
      case (Inl e)
      with Pair c show ?thesis by (simp add: bind_def)
    next
      case (Inr x)
      have "committed (snd (f x w')) = committed w'"
        using assms(2) [of x] by (simp add: keeps_def)
      with Pair Inr c show ?thesis by (simp add: bind_def)
    qed
  qed
qed

lemma keeps_call [keeps_intros]: "keeps (call flt st session)"
  by (auto simp: keeps_def call_def Let_def split: option.splits)

lemma keeps_read_db [keeps_intros]: "keeps (read_db session)"
  by (simp add: keeps_def read_db_def)

lemma keeps_write_db [keeps_intros]: "keeps (write_db (Some session) x)"
  by (simp add: keeps_def write_db_def)

lemma keeps_abort [keeps_intros]: "keeps (abortTransaction flt session)"
  by (auto simp: keeps_def abortTransaction_def split: option.splits)

lemma keeps_if [keeps_intros]: "keeps m \<Longrightarrow> keeps n \<Longrightarrow> keeps (if c then m else n)"
  by simp

lemma keeps_case_option [keeps_intros]:
  "keeps m \<Longrightarrow> (\<And>x. keeps (f x)) \<Longrightarrow> keeps (case v of None \<Rightarrow> m | Some x \<Rightarrow> f x)"
  by (cases v) simp_all

lemma keeps_validate [keeps_intros]: "keeps (validateBookAuthors flt ids session)"
  unfolding validateBookAuthors_def findBookAuthors_def AuthorModel_find_def Let_def
  by (intro keeps_intros)

lemma keeps_add [keeps_intros]: "keeps (addBookToAuthors flt b ids (Some session))"
  unfolding addBookToAuthors_def AuthorModel_updateMany_push_def
  by (cases b; cases ids) (auto intro!: keeps_intros)

lemma keeps_remove [keeps_intros]: "keeps (removeBookFromAuthors flt b ids (Some session))"
  unfolding removeBookFromAuthors_def AuthorModel_updateMany_pull_def
  by (intro keeps_intros)

lemma keeps_sync [keeps_intros]: "keeps (updateBookAuthors flt b new old (Some session))"
  unfolding updateBookAuthors_def by (intro keeps_intros)

lemma keeps_findById [keeps_intros]: "keeps (BookModel_findById flt i session)"
  unfolding BookModel_findById_def by (intro keeps_intros)

lemma keeps_save [keeps_intros]: "keeps (save flt d (Some session))"
  unfolding save_def by (intro keeps_intros)

lemma keeps_findByIdAndUpdate [keeps_intros]:
  "keeps (BookModel_findByIdAndUpdate flt i data (Some session))"
  unfolding BookModel_findByIdAndUpdate_def by (intro keeps_intros)

lemma keeps_findByIdAndDelete [keeps_intros]:
  "keeps (BookModel_findByIdAndDelete flt i (Some session))"
  unfolding BookModel_findByIdAndDelete_def by (intro keeps_intros)

lemma keeps_on_error [keeps_intros]: "keeps (on_error adaptError flt session e)"
  unfolding on_error_def by (intro keeps_intros)

lemma fails_keep_keeps: "keeps m \<Longrightarrow> fails_keep m"
  by (simp add: keeps_def fails_keep_def)

lemma fails_keep_commit: "fails_keep (commitTransaction flt session)"
  by (auto simp: fails_keep_def commitTransaction_def split: option.splits)

lemma fails_keep_commit_ret: "fails_keep (bind (commitTransaction flt session) (\<lambda>_. ret x))"
  by (auto simp: fails_keep_def commitTransaction_def bind_def ret_def split: option.splits)

lemma fails_keep_throw: "fails_keep (throw e)"
  by (rule fails_keep_keeps) (rule keeps_throw)

lemma fails_keep_bind:
  assumes "keeps m" and "\<And>x. fails_keep (f x)"
  shows "fails_keep (bind m f)"
  unfolding fails_keep_def
proof (intro allI impI)
  fix w
  assume fl: "isl (fst (bind m f w))"
  show "committed (snd (bind m f w)) = committed w"
  proof (cases "m w")
    case (Pair r w')
    with assms(1) have c: "committed w' = committed w"
      by (auto simp: keeps_def dest: spec [of _ w])
    show ?thesis
    proof (cases r)
      case (Inl e)
      with Pair c show ?thesis by (simp add: bind_def)
    next
      case (Inr x)
      with Pair fl have "isl (fst (f x w'))" by (simp add: bind_def)
      then have "committed (snd (f x w')) = committed w'"
        using assms(2) [of x] by (simp add: fails_keep_def)
      with Pair Inr c show ?thesis by (simp add: bind_def)
    qed
  qed
qed

lemma fails_keep_case_option:
  "fails_keep m \<Longrightarrow> (\<And>x. fails_keep (f x)) \<Longrightarrow>
   fails_keep (case v of None \<Rightarrow> m | Some x \<Rightarrow> f x)"
  by (cases v) simp_all

text \<open>The frame of an operation whose body only commits as its last failing step.\<close>

lemma transaction_atomic:
  assumes body: "\<And>session. fails_keep (body session)"
    and handler: "\<And>session e. keeps (handler session e)"
    and failed: "isl (fst (bind startSession (\<lambda>session. bind (startTransaction flt session)
           (\<lambda>_. try_finally (try_catch (body session) (handler session)) (endSession session))) w))"
  shows "committed (snd (bind startSession (\<lambda>session. bind (startTransaction flt session)
           (\<lambda>_. try_finally (try_catch (body session) (handler session)) (endSession session))) w))
         = committed w"
proof (cases "flt BeginTransaction")
  case (Some e)
  then show ?thesis by (simp add: transaction_unstarted)
next
  case None
  define w2 where "w2 = w\<lparr>pending := [], trace := trace w @ [StartSession, StartTransaction]\<rparr>"
  have c2: "committed w2 = committed w" by (simp add: w2_def)
  obtain r w3 where b: "body ClientSession w2 = (r, w3)" by (cases "body ClientSession w2")
  show ?thesis
  proof (cases r)
    case (Inr x)
    with b failed None show ?thesis
      by (simp add: bind_def startSession_def startTransaction_def try_finally_def try_catch_def
          endSession_def w2_def [symmetric])
  next
    case (Inl e)
    with b have "committed w3 = committed w2"
      using body [of ClientSession] by (auto simp: fails_keep_def dest: spec [of _ w2])
    moreover have "committed (snd (handler ClientSession e w3)) = committed w3"
      using handler [of ClientSession e] by (simp add: keeps_def)
    ultimately show ?thesis
      using b Inl c2 None
      by (auto simp: bind_def startSession_def startTransaction_def try_finally_def try_catch_def
          endSession_def w2_def [symmetric] split: prod.splits sum.splits)
  qed
qed

lemma create_atomic:
  "isl (fst (create adaptError flt newId data w)) \<Longrightarrow>
   committed (snd (create adaptError flt newId data w)) = committed w"
  unfolding create_def Let_def
  by (erule transaction_atomic [rotated 2])
     (intro fails_keep_commit_ret fails_keep_bind keeps_intros)+

lemma update_atomic:
  "isl (fst (update adaptError flt i data w)) \<Longrightarrow>
   committed (snd (update adaptError flt i data w)) = committed w"
  unfolding update_def
  by (erule transaction_atomic [rotated 2])
     (intro fails_keep_commit_ret fails_keep_case_option fails_keep_throw fails_keep_bind
        keeps_intros)+

lemma delete_atomic:
  "isl (fst (delete adaptError flt i w)) \<Longrightarrow>
   committed (snd (delete adaptError flt i w)) = committed w"
  unfolding delete_def
  by (erule transaction_atomic [rotated 2])
     (intro fails_keep_commit fails_keep_case_option fails_keep_throw fails_keep_bind
        keeps_intros)+

section \<open>Rejected author lists\<close>

lemma found_count:
  assumes "distinct (map author_id as)"
  shows "length (filter (\<lambda>a. author_id a \<in> set ids) as) = card (set ids \<inter> author_id ` set as)"
proof -
  have "length (filter (\<lambda>a. author_id a \<in> set ids) as)
        = length (filter (\<lambda>k. k \<in> set ids) (map author_id as))"
    by (simp add: filter_map comp_def)
  also have "\<dots> = card ({k. k \<in> set ids} \<inter> set (map author_id as))"
    using assms by (rule distinct_length_filter)
  finally show ?thesis by simp
qed

text \<open>
  A list with a duplicate or with an id of no stored author is rejected, and the error maps
  the key \<open>author\<close> to the message.
\<close>

lemma validate_rejects:
  assumes "flt FindAuthors = None"
    and "distinct (map author_id (AuthorModel (visible session w)))"
    and "\<not> resolvable (Some ids) (visible session w)"
  shows "validateBookAuthors flt (Some ids) session w =
     (Inl (DataValidatorError [(''author'', ''Authors list contains invalid ids'')]),
      w\<lparr>trace := trace w @ [Call FindAuthors session]\<rparr>)"
proof -
  let ?as = "AuthorModel (visible session w)"
  have bad: "length ids \<noteq> card (set ids)
      \<or> length ids \<noteq> length (filter (\<lambda>a. author_id a \<in> set ids) ?as)"
  proof (cases "distinct ids")
    case False
    then have "card (set ids) \<noteq> length ids" using card_distinct by blast
    then show ?thesis by simp
  next
    case True
    with assms(3) have "\<not> set ids \<subseteq> author_id ` set ?as" by (simp add: resolvable_def)
    then have "set ids \<inter> author_id ` set ?as \<subset> set ids" by auto
    then have "card (set ids \<inter> author_id ` set ?as) < card (set ids)"
      by (intro psubset_card_mono) simp_all
    moreover have "card (set ids) = length ids" using True by (rule distinct_card)
    ultimately show ?thesis using found_count [OF assms(2), of ids] by simp
  qed
  then show ?thesis
    using assms(1)
    by (auto simp: validateBookAuthors_def findBookAuthors_def AuthorModel_find_def
        ret_def throw_def bind_def call_def read_db_def Let_def)
qed

text \<open>
  C5 fails on the key of the error: creating a book with the author \<open>A1\<close> twice is rejected
  and changes nothing, but the error maps \<open>author\<close>, not \<open>authors\<close>, to the message.
\<close>

theorem create_duplicate_authors_error_key:
  "fst (create id noFaults ''B3'' (payload (Some [''A1'', ''A1''])) w0)
     = Inl (DataValidatorError [(''author'', ''Authors list contains invalid ids'')])
   \<and> committed (snd (create id noFaults ''B3'' (payload (Some [''A1'', ''A1''])) w0)) = committed w0"
  by (simp add: repo_defs model_defs io_defs example_defs List.card_set)

section \<open>Missing books\<close>

lemma update_missing:
  assumes "find (\<lambda>d. book_id d = i) (BookModel (committed w)) = None"
    and "flt BeginTransaction = None" and "flt FindBook = None" and "flt Abort = None"
  shows "update adaptError flt i data w =
     (Inl (adaptError (ResourceNotFoundError ''Book'' (Some i))),
      w\<lparr>pending := [],
        trace := trace w @ [StartSession, StartTransaction, Call FindBook (Some ClientSession),
                   AbortTransaction, EndSession]\<rparr>)"
  using assms
  by (simp add: update_def BookModel_findById_def on_error_def io_defs)

lemma delete_missing:
  assumes "find (\<lambda>d. book_id d = i) (BookModel (committed w)) = None"
    and "flt BeginTransaction = None" and "flt DeleteBook = None" and "flt Abort = None"
  shows "delete adaptError flt i w =
     (Inl (adaptError (ResourceNotFoundError ''Book'' (Some i))),
      w\<lparr>pending := [],
        trace := trace w @ [StartSession, StartTransaction, Call DeleteBook (Some ClientSession),
                   AbortTransaction, EndSession]\<rparr>)"
  using assms
  by (simp add: delete_def BookModel_findByIdAndDelete_def on_error_def io_defs)

lemma update_missing_any:
  assumes "find (\<lambda>d. book_id d = i) (BookModel (committed w)) = None"
  shows "isl (fst (update adaptError flt i data w))"
    and "\<exists>evs. trace (snd (update adaptError flt i data w)) = trace w @ evs \<and> list_all no_sync evs"
  using assms
  by (cases "flt BeginTransaction"; cases "flt FindBook"; cases "flt Abort";
      simp add: update_def BookModel_findById_def on_error_def io_defs no_sync_def)+

lemma delete_missing_any:
  assumes "find (\<lambda>d. book_id d = i) (BookModel (committed w)) = None"
  shows "isl (fst (delete adaptError flt i w))"
    and "\<exists>evs. trace (snd (delete adaptError flt i w)) = trace w @ evs \<and> list_all no_sync evs"
  using assms
  by (cases "flt BeginTransaction"; cases "flt DeleteBook"; cases "flt Abort";
      simp add: delete_def BookModel_findByIdAndDelete_def on_error_def io_defs no_sync_def)+

text \<open>
  C7: when no stored book has the id, update and delete fail, change no book or author record
  and issue no author-side bulk update, whatever fails. When the transaction starts and the
  lookup (for delete, the removal) and the abort do not fail, the transaction is aborted
  right after the lookup, the session is released, and the operation fails with the
  adapter's image of the not-found error for the resource \<open>Book\<close> and the id.
\<close>

theorem update_delete_missing_book:
  assumes "find (\<lambda>d. book_id d = i) (BookModel (committed w)) = None"
  shows "(flt BeginTransaction = None \<and> flt FindBook = None \<and> flt Abort = None \<longrightarrow>
            update adaptError flt i data w =
              (Inl (adaptError (ResourceNotFoundError ''Book'' (Some i))),
               w\<lparr>pending := [],
                 trace := trace w @ [StartSession, StartTransaction,
                            Call FindBook (Some ClientSession), AbortTransaction, EndSession]\<rparr>)) \<and>
         (flt BeginTransaction = None \<and> flt DeleteBook = None \<and> flt Abort = None \<longrightarrow>
            delete adaptError flt i w =
              (Inl (adaptError (ResourceNotFoundError ''Book'' (Some i))),
               w\<lparr>pending := [],
                 trace := trace w @ [StartSession, StartTransaction,
                            Call DeleteBook (Some ClientSession), AbortTransaction, EndSession]\<rparr>)) \<and>
         isl (fst (update adaptError flt i data w)) \<and>
         isl (fst (delete adaptError flt i w)) \<and>
         committed (snd (update adaptError flt i data w)) = committed w \<and>
         committed (snd (delete adaptError flt i w)) = committed w \<and>
         (\<exists>evs. trace (snd (update adaptError flt i data w)) = trace w @ evs \<and>
                list_all no_sync evs) \<and>
         (\<exists>evs. trace (snd (delete adaptError flt i w)) = trace w @ evs \<and> list_all no_sync evs)"
  using assms
  by (intro conjI impI update_missing delete_missing update_missing_any delete_missing_any
        update_atomic delete_atomic; simp)

text \<open>No book of the example has the id \<open>B9\<close>.\<close>

theorem update_delete_missing_book_witness:
  "find (\<lambda>d. book_id d = ''B9'') (BookModel (committed w0)) = None \<and>
   update id noFaults ''B9'' (only_authors (Some [''A1''])) w0 =
     (Inl (ResourceNotFoundError ''Book'' (Some ''B9'')),
      w0\<lparr>trace := [StartSession, StartTransaction, Call FindBook (Some ClientSession),
                   AbortTransaction, EndSession]\<rparr>) \<and>
   delete id noFaults ''B9'' w0 =
     (Inl (ResourceNotFoundError ''Book'' (Some ''B9'')),
      w0\<lparr>trace := [StartSession, StartTransaction, Call DeleteBook (Some ClientSession),
                   AbortTransaction, EndSession]\<rparr>)"
proof -
  have absent: "find (\<lambda>d. book_id d = ''B9'') (BookModel (committed w0)) = None"
    by (simp add: example_defs)
  from update_delete_missing_book
    [OF absent, of noFaults id "only_authors (Some [''A1''])"] absent
  show ?thesis by (simp add: noFaults_def w0_def)
qed

section \<open>Replacing a book\<close>

text \<open>
  C4 fails on replace: when the push of the synchronization fails, the transaction is
  aborted and the book write is dropped, but the pull, issued without the session, has
  already taken \<open>B1\<close> from the books of \<open>A1\<close> and stays.
\<close>

theorem replace_failure_leaves_pull:
  "fst (replace id (faultAt PushAuthors) ''B1'' (payload (Some [''A2'', ''A3''])) w0)
     = Inl (StorageError ''unavailable'') \<and>
   AbortTransaction
     \<in> set (trace (snd (replace id (faultAt PushAuthors) ''B1'' (payload (Some [''A2'', ''A3''])) w0)))
   \<and>
   BookModel (committed
       (snd (replace id (faultAt PushAuthors) ''B1'' (payload (Some [''A2'', ''A3''])) w0)))
     = BookModel (committed w0) \<and>
   books_of ''A1'' (committed w0) = Some [''B1''] \<and>
   books_of ''A1'' (committed
       (snd (replace id (faultAt PushAuthors) ''B1'' (payload (Some [''A2'', ''A3''])) w0)))
     = Some []"
  by (simp add: repo_defs model_defs io_defs example_defs List.card_set)

text \<open>
  C8: with no storage call failing, unique author ids in the store, and a payload whose
  authors are absent or a duplicate-free list of stored authors, replacing under an id that
  no stored book has succeeds: it returns the read form of the new document, with the
  summaries of the requested authors, and the committed store then holds that document
  under the id.
\<close>

theorem replace_upserts_missing_book:
  assumes absent: "find (\<lambda>d. book_id d = i) (BookModel (committed w)) = None"
    and uniq: "distinct (map author_id (AuthorModel (committed w)))"
    and valid: "resolvable (create_authors data) (committed w)"
  shows "fst (replace adaptError noFaults i data w)
           = Inr (documentToBook (new_BookModel i data) None
                    (Some (summaries (create_authors data) (committed w))))
       \<and> find (\<lambda>d. book_id d = i) (BookModel (committed (snd (replace adaptError noFaults i data w))))
           = Some (new_BookModel i data)"
proof -
  define w2 where "w2 = w\<lparr>pending := [], trace := trace w @ [StartSession, StartTransaction]\<rparr>"
  have vis: "visible (Some ClientSession) w2 = committed w"
    by (simp add: w2_def visible_def)
  obtain w3 where v: "validateBookAuthors noFaults (create_authors data) (Some ClientSession) w2
      = (Inr (summaries (create_authors data) (committed w)), w3)"
    and w3: "committed w3 = committed w" "pending w3 = []"
    using validate_resolvable [of noFaults "Some ClientSession" w2 "create_authors data"]
      uniq valid vis
    by (cases "validateBookAuthors noFaults (create_authors data) (Some ClientSession) w2")
       (simp add: noFaults_def w2_def)
  have nb: "book_id (new_BookModel i data) = i" by (simp add: new_BookModel_def)
  have nin: "i \<notin> book_id ` set (BookModel (committed w))"
    using absent by (auto simp: find_None_iff)
  have fs: "find (\<lambda>d. book_id d = i) (BookModel (committed w) @ [new_BookModel i data])
      = Some (new_BookModel i data)"
    using absent nb by (rule find_snoc)
  show ?thesis
    using v w3 nin fs absent
    by (auto simp: replace_def w2_def [symmetric] BookModel_findById_def
        BookModel_findOneAndReplace_def updateBookAuthors_def removeBookFromAuthors_def
        addBookToAuthors_def AuthorModel_updateMany_push_def on_error_def io_defs noFaults_def
        nb Let_def)
qed

text \<open>No book of the example has the id \<open>B7\<close>; the authors \<open>A2\<close> and \<open>A3\<close> are stored.\<close>

theorem replace_upserts_missing_book_witness:
  "find (\<lambda>d. book_id d = ''B7'') (BookModel (committed w0)) = None \<and>
   distinct (map author_id (AuthorModel (committed w0))) \<and>
   resolvable (create_authors (payload (Some [''A2'', ''A3'']))) (committed w0) \<and>
   fst (replace id noFaults ''B7'' (payload (Some [''A2'', ''A3''])) w0)
     = Inr \<lparr>title = ''Dune'', description = '''', price = 10, numberOfPages = 100,
            read_id = ''B7'',
            read_authors = [\<lparr>ba_id = ''A2'', ba_name = Some ''Bob''\<rparr>,
                            \<lparr>ba_id = ''A3'', ba_name = Some ''Cy''\<rparr>]\<rparr> \<and>
   find (\<lambda>d. book_id d = ''B7'')
     (BookModel (committed (snd (replace id noFaults ''B7'' (payload (Some [''A2'', ''A3''])) w0))))
     = Some (bookOf ''B7'' ''Dune'' [''A2'', ''A3''])"
proof -
  have h: "find (\<lambda>d. book_id d = ''B7'') (BookModel (committed w0)) = None"
    "distinct (map author_id (AuthorModel (committed w0)))"
    "resolvable (create_authors (payload (Some [''A2'', ''A3'']))) (committed w0)"
    by (simp_all add: example_defs resolvable_def)
  from replace_upserts_missing_book [OF h, of id] h
  show ?thesis
    by (simp add: example_defs documentToBook_def new_BookModel_def summaries_def)
qed

section \<open>The authors of the returned book\<close>

lemma returns_ret: "Q x \<Longrightarrow> returns Q (ret x)"
  by (simp add: returns_def ret_def)

lemma returns_throw: "returns Q (throw e)"
  by (simp add: returns_def throw_def)

lemma returns_any: "returns (\<lambda>_. True) m"
  by (simp add: returns_def split: sum.splits)

lemma returns_bind_with:
  assumes "returns R m" and "\<And>x. R x \<Longrightarrow> returns Q (f x)"
  shows "returns Q (bind m f)"
  unfolding returns_def
proof
  fix w
  show "case fst (bind m f w) of Inl e \<Rightarrow> True | Inr x \<Rightarrow> Q x"
  proof (cases "m w")
    case (Pair r w')
    show ?thesis
    proof (cases r)
      case (Inl e)
      with Pair show ?thesis by (simp add: bind_def)
    next
      case (Inr x)
      with Pair assms(1) have "R x" by (auto simp: returns_def dest: spec [of _ w])
      then have "returns Q (f x)" by (rule assms(2))
      with Pair Inr show ?thesis by (auto simp: returns_def bind_def)
    qed
  qed
qed

lemma returns_bind:
  assumes "\<And>x. returns Q (f x)"
  shows "returns Q (bind m f)"
  by (rule returns_bind_with [OF returns_any]) (rule assms)

lemma returns_try_catch:
  assumes "returns Q m" and "\<And>e. returns Q (h e)"
  shows "returns Q (try_catch m h)"
  unfolding returns_def
proof
  fix w
  show "case fst (try_catch m h w) of Inl e \<Rightarrow> True | Inr x \<Rightarrow> Q x"
    using assms(1) assms(2)
    by (cases "m w"; cases "fst (m w)")
       (auto simp: returns_def try_catch_def dest: spec [of _ w] split: sum.splits)
qed

lemma returns_try_finally:
  assumes "returns Q m"
  shows "returns Q (try_finally m fin)"
  unfolding returns_def
proof
  fix w
  show "case fst (try_finally m fin w) of Inl e \<Rightarrow> True | Inr x \<Rightarrow> Q x"
    using assms
    by (cases "m w")
       (auto simp: returns_def try_finally_def dest: spec [of _ w] split: sum.splits prod.splits)
qed

lemma returns_on_error: "returns Q (on_error adaptError flt session e)"
  unfolding on_error_def by (intro returns_bind returns_throw)

lemma returns_case_option:
  "returns Q m \<Longrightarrow> (\<And>x. returns Q (f x)) \<Longrightarrow> returns Q (case v of None \<Rightarrow> m | Some x \<Rightarrow> f x)"
  by (cases v) simp_all

lemma returnsD: "returns Q m \<Longrightarrow> fst (m w) = Inr x \<Longrightarrow> Q x"
  by (auto simp: returns_def dest: spec [of _ w])

lemma validate_returns_empty:
  "ids = None \<or> ids = Some [] \<Longrightarrow> returns (\<lambda>x. x = []) (validateBookAuthors flt ids session)"
  by (auto simp: returns_def validateBookAuthors_def findBookAuthors_def AuthorModel_find_def
      ret_def throw_def bind_def call_def read_db_def Let_def split: option.splits)

lemma create_returns_empty:
  "create_authors data = Some [] \<Longrightarrow>
   returns (\<lambda>rb. read_authors rb = []) (create adaptError flt newId data)"
  unfolding create_def Let_def
  by (intro returns_bind returns_try_finally returns_try_catch returns_on_error
        returns_bind_with [OF validate_returns_empty] returns_ret) simp_all

lemma replace_returns_empty:
  "create_authors data = Some [] \<Longrightarrow>
   returns (\<lambda>rb. read_authors rb = []) (replace adaptError flt i data)"
  unfolding replace_def
  by (intro returns_bind returns_try_finally returns_try_catch returns_on_error
        returns_bind_with [OF validate_returns_empty] returns_ret) simp_all

lemma update_returns_empty:
  "update_authors data = None \<or> update_authors data = Some [] \<Longrightarrow>
   returns (\<lambda>rb. read_authors rb = []) (update adaptError flt i data)"
  unfolding update_def
  by (intro returns_bind returns_try_finally returns_try_catch returns_on_error
        returns_case_option returns_throw
        returns_bind_with [OF validate_returns_empty] returns_ret) simp_all

lemma update_omitting_authors:
  assumes "find (\<lambda>d. book_id d = i) (BookModel (committed w)) = Some d"
    and "update_authors data = None"
  shows "fst (update adaptError noFaults i data w)
           = Inr (documentToBook (patch data d) None (Some []))"
    and "map_option authors (find (\<lambda>x. book_id x = i)
           (BookModel (committed (snd (update adaptError noFaults i data w))))) = Some (authors d)"
  using assms
  by (cases "i = []";
      simp add: update_def BookModel_findById_def BookModel_findByIdAndUpdate_def validate_absent
        updateBookAuthors_def removeBookFromAuthors_def addBookToAuthors_def
        AuthorModel_updateMany_push_def AuthorModel_updateMany_pull_def on_error_def io_defs
        noFaults_def find_map_patch; simp add: patch_def)+

lemma create_empty_authors:
  assumes "create_authors data = Some []"
    and "newId \<notin> book_id ` set (BookModel (committed w))"
  shows "fst (create adaptError noFaults newId data w)
           = Inr (documentToBook (new_BookModel newId data) None (Some []))"
  using assms
  by (cases "newId = []")
     (simp_all add: create_def save_def validate_empty_ok addBookToAuthors_def
        AuthorModel_updateMany_push_def on_error_def io_defs noFaults_def new_BookModel_def
        Let_def)

lemma replace_empty_authors:
  assumes "create_authors data = Some []"
  shows "fst (replace adaptError noFaults i data w)
           = Inr (documentToBook (new_BookModel i data) None (Some []))"
  using assms
  by (cases "i = []"; cases "find (\<lambda>d. book_id d = i) (BookModel (committed w))")
     (simp_all add: replace_def validate_empty_ok BookModel_findById_def
        BookModel_findOneAndReplace_def updateBookAuthors_def removeBookFromAuthors_def
        addBookToAuthors_def AuthorModel_updateMany_push_def AuthorModel_updateMany_pull_def
        on_error_def io_defs noFaults_def new_BookModel_def)

lemma update_empty_authors:
  assumes "find (\<lambda>d. book_id d = i) (BookModel (committed w)) = Some d"
    and "update_authors data = Some []"
  shows "fst (update adaptError noFaults i data w)
           = Inr (documentToBook (patch data d) None (Some []))"
  using assms
  by (cases "i = []")
     (simp_all add: update_def validate_empty_ok BookModel_findById_def
        BookModel_findByIdAndUpdate_def updateBookAuthors_def removeBookFromAuthors_def
        addBookToAuthors_def AuthorModel_updateMany_push_def AuthorModel_updateMany_pull_def
        on_error_def io_defs noFaults_def)
text \<open>
  C10: an update whose data omit the authors, and a create, replace or update whose authors
  list is empty, hand the empty list of the validator to \<open>documentToBook\<close>, which uses it
  as it is. So whenever such an operation returns a book, whatever storage call fails, the
  authors of that book are empty. With no storage call failing the operation does return
  (an update needs the book to be stored, a create an unused id), and after an update that
  omits the authors the stored book still has the authors it had.
\<close>

theorem empty_cached_authors_returned:
  "(update_authors udata = None \<or> update_authors udata = Some [] \<longrightarrow>
      (\<forall>rb. fst (update adaptError flt i udata w) = Inr rb \<longrightarrow> read_authors rb = [])) \<and>
   (create_authors cdata = Some [] \<longrightarrow>
      (\<forall>rb. fst (create adaptError flt newId cdata w) = Inr rb \<longrightarrow> read_authors rb = []) \<and>
      (\<forall>rb. fst (replace adaptError flt i cdata w) = Inr rb \<longrightarrow> read_authors rb = [])) \<and>
   (find (\<lambda>x. book_id x = i) (BookModel (committed w)) = Some d \<and> update_authors udata = None \<longrightarrow>
      fst (update adaptError noFaults i udata w)
        = Inr (documentToBook (patch udata d) None (Some [])) \<and>
      map_option authors (find (\<lambda>x. book_id x = i)
          (BookModel (committed (snd (update adaptError noFaults i udata w))))) = Some (authors d)) \<and>
   (find (\<lambda>x. book_id x = i) (BookModel (committed w)) = Some d \<and> update_authors udata = Some [] \<longrightarrow>
      fst (update adaptError noFaults i udata w)
        = Inr (documentToBook (patch udata d) None (Some []))) \<and>
   (create_authors cdata = Some [] \<longrightarrow>
      fst (replace adaptError noFaults i cdata w)
        = Inr (documentToBook (new_BookModel i cdata) None (Some []))) \<and>
   (create_authors cdata = Some [] \<and> newId \<notin> book_id ` set (BookModel (committed w)) \<longrightarrow>
      fst (create adaptError noFaults newId cdata w)
        = Inr (documentToBook (new_BookModel newId cdata) None (Some [])))"
proof (intro conjI impI allI)
  fix rb
  assume "update_authors udata = None \<or> update_authors udata = Some []"
    and "fst (update adaptError flt i udata w) = Inr rb"
  then show "read_authors rb = []"
    using returnsD [OF update_returns_empty] by blast
next
  fix rb
  assume "create_authors cdata = Some []" and "fst (create adaptError flt newId cdata w) = Inr rb"
  then show "read_authors rb = []"
    using returnsD [OF create_returns_empty] by blast
next
  fix rb
  assume "create_authors cdata = Some []" and "fst (replace adaptError flt i cdata w) = Inr rb"
  then show "read_authors rb = []"
    using returnsD [OF replace_returns_empty] by blast
qed (simp_all add: update_omitting_authors update_empty_authors replace_empty_authors
       create_empty_authors)

text \<open>
  At the example world: an update of \<open>B1\<close> that omits the authors returns no authors while
  the stored book keeps \<open>A1\<close> and \<open>A2\<close>; a create and a replace with the empty list return
  no authors either.
\<close>

theorem empty_cached_authors_returned_witness:
  "find (\<lambda>x. book_id x = ''B1'') (BookModel (committed w0)) = Some (bookOf ''B1'' ''Dune'' [''A1'', ''A2''])
   \<and> update_authors (only_authors None) = None
   \<and> create_authors (payload (Some [])) = Some []
   \<and> ''B3'' \<notin> book_id ` set (BookModel (committed w0))
   \<and> fst (update id noFaults ''B1'' (only_authors None) w0)
       = Inr \<lparr>title = ''Dune'', description = '''', price = 10, numberOfPages = 100,
              read_id = ''B1'', read_authors = []\<rparr>
   \<and> map_option authors (find (\<lambda>x. book_id x = ''B1'')
         (BookModel (committed (snd (update id noFaults ''B1'' (only_authors None) w0)))))
       = Some [''A1'', ''A2'']
   \<and> fst (replace id noFaults ''B1'' (payload (Some [])) w0)
       = Inr \<lparr>title = ''Dune'', description = '''', price = 10, numberOfPages = 100,
              read_id = ''B1'', read_authors = []\<rparr>
   \<and> fst (create id noFaults ''B3'' (payload (Some [])) w0)
       = Inr \<lparr>title = ''Dune'', description = '''', price = 10, numberOfPages = 100,
              read_id = ''B3'', read_authors = []\<rparr>"
proof -
  have h: "find (\<lambda>x. book_id x = ''B1'') (BookModel (committed w0))
             = Some (bookOf ''B1'' ''Dune'' [''A1'', ''A2''])"
    "update_authors (only_authors None) = None"
    "create_authors (payload (Some [])) = Some []"
    "''B3'' \<notin> book_id ` set (BookModel (committed w0))"
    by (simp_all add: example_defs)
  from empty_cached_authors_returned
    [where udata = "only_authors None" and cdata = "payload (Some [])" and i = "''B1''"
       and w = w0 and d = "bookOf ''B1'' ''Dune'' [''A1'', ''A2'']" and adaptError = id
       and newId = "''B3''" and flt = noFaults] h
  show ?thesis
    by (simp add: documentToBook_def patch_def new_BookModel_def bookOf_def payload_def
        only_authors_def)
qed

end
